theory Spec2Isabelle
  imports Complex_Main "HOL-Library.Sublist"
begin

section \<open>JavaScript values\<close>

text \<open>
  The constructor of \<open>Base\<close> (src/Base.js) receives arbitrary JavaScript values and
  inspects them with three language primitives: truthiness (\<open>!v\<close>, \<open>v && ...\<close>),
  \<open>typeof v\<close>, and the method call \<open>v.startsWith("mongodb")\<close>. The value type below
  carries what these primitives look at.

  A number is a double; only whether it is zero or NaN matters here, so the finite ones
  are rationals (negative zero is identified with zero; both are falsy).
\<close>

datatype jsnum = NaN | PosInfinity | NegInfinity | Finite rat

text \<open>
  A function value is represented by what calling it does at the single call site of the
  source that can reach a user-supplied function (\<open>mongodbURL.startsWith("mongodb")\<close>):
  it returns a value or throws one.
\<close>

datatype 'v outcome = Returns 'v | Throws 'v

text \<open>
  Objects and functions carry the properties visible on them (own or inherited) as an
  association list. \<open>JDate t\<close> is a \<open>Date\<close> object holding the clock reading \<open>t\<close>
  (milliseconds since the epoch).
\<close>

datatype jsval =
    JUndefined
  | JNull
  | JBool bool
  | JNum jsnum
  | JBigInt int
  | JStr string
  | JSymbol string
  | JDate int
  | JObject "(string \<times> jsval) list"
  | JFunction "(string \<times> jsval) list" "jsval outcome"

text \<open>ToBoolean: the falsy values are undefined, null, false, 0, NaN, 0n and "".\<close>

fun truthy :: "jsval \<Rightarrow> bool" where
  "truthy JUndefined = False"
| "truthy JNull = False"
| "truthy (JBool b) = b"
| "truthy (JNum NaN) = False"
| "truthy (JNum (Finite q)) = (q \<noteq> 0)"
| "truthy (JNum PosInfinity) = True"
| "truthy (JNum NegInfinity) = True"
| "truthy (JBigInt i) = (i \<noteq> 0)"
| "truthy (JStr s) = (s \<noteq> [])"
| "truthy (JSymbol s) = True"
| "truthy (JDate t) = True"
| "truthy (JObject ps) = True"
| "truthy (JFunction ps f) = True"

text \<open>The \<open>typeof\<close> operator; \<open>typeof null\<close> is "object".\<close>

fun typeof :: "jsval \<Rightarrow> string" where
  "typeof JUndefined = ''undefined''"
| "typeof JNull = ''object''"
| "typeof (JBool b) = ''boolean''"
| "typeof (JNum n) = ''number''"
| "typeof (JBigInt i) = ''bigint''"
| "typeof (JStr s) = ''string''"
| "typeof (JSymbol s) = ''symbol''"
| "typeof (JDate t) = ''object''"
| "typeof (JObject ps) = ''object''"
| "typeof (JFunction ps f) = ''function''"

section \<open>Exceptions\<close>

text \<open>
  Modelled from the spec: the class exported by \<open>./Error\<close> (required by Base.js, line 3,
  and not part of the sources at hand) is the spec's \<open>ConfigurationError\<close>; it carries the
  message it was constructed with. \<open>TypeError\<close> is the language's own exception for calling
  something that is not a function or reading a property of undefined or null.
  \<open>Thrown v\<close> is a value thrown by a user-supplied function.
\<close>

datatype exn = ConfigurationError string | TypeError | Thrown jsval

text \<open>Calling the value found under a property name: only a function can be called.\<close>

fun call_member :: "jsval option \<Rightarrow> exn + jsval" where
  "call_member (Some (JFunction ps (Returns v))) = Inr v"
| "call_member (Some (JFunction ps (Throws v))) = Inl (Thrown v)"
| "call_member _ = Inl TypeError"

text \<open>
  The expression \<open>v.startsWith(p)\<close>. On a string it is \<open>String.prototype.startsWith\<close>.
  Objects and functions answer with the property they carry, if any. Numbers, booleans,
  bigints, symbols and dates have no such property, so the call is a call of
  \<open>undefined\<close>; on undefined and null the property read itself fails.
\<close>

fun invoke_startsWith :: "jsval \<Rightarrow> string \<Rightarrow> exn + jsval" where
  "invoke_startsWith (JStr s) p = Inr (JBool (prefix p s))"
| "invoke_startsWith (JObject ps) p = call_member (map_of ps ''startsWith'')"
| "invoke_startsWith (JFunction ps f) p = call_member (map_of ps ''startsWith'')"
| "invoke_startsWith _ p = Inl TypeError"

section \<open>The connection manager\<close>

text \<open>The fields of a \<open>Base\<close> instance. A field never assigned reads as undefined.\<close>

record Base =
  dbURL :: jsval
  options :: jsval
  readyAt :: jsval

text \<open>
  What a method does besides updating the fields, in program order: events emitted on the
  instance itself (\<open>this.emit(name, args...)\<close>, with the fields as a listener would see
  them at that moment), and calls into the driver (\<open>mongoose.connect\<close>,
  \<open>mongoose.disconnect\<close>, \<open>mongoose.connection.on\<close>). The driver's calls return nothing
  the source looks at. How the emitter of the \<open>events\<close> library hands an emission to the
  listeners subscribed at that moment is outside Base.js and is not part of the model: an
  emission is the call of \<open>emit\<close>.
\<close>

datatype 'b effect =
    Emit string "jsval list" 'b
  | MongooseConnect jsval jsval
  | MongooseDisconnect
  | ConnectionOn string

text \<open>\<open>_create\<close>, lines 52 to 58.\<close>

definition Base_create :: "'a Base_scheme \<Rightarrow> 'a Base_scheme \<times> 'a Base_scheme effect list" where
  "Base_create this =
     (this,
      [Emit ''Creating database connection...'' [] this,
       MongooseConnect (dbURL this)
         (JObject [(''useNewUrlParser'', JBool True), (''useUnifiedTopology'', JBool True)])])"

text \<open>The condition of line 17: \<open>!mongodbURL || !mongodbURL.startsWith("mongodb")\<close>.\<close>

definition no_mongodb_url :: "jsval \<Rightarrow> exn + bool" where
  "no_mongodb_url mongodbURL =
     (if \<not> truthy mongodbURL then Inr True
      else case invoke_startsWith mongodbURL ''mongodb'' of
             Inl e \<Rightarrow> Inl e
           | Inr r \<Rightarrow> Inr (\<not> truthy r))"

text \<open>
  The constructor, lines 15 to 46. An argument that is missing or undefined takes the
  default of the parameter list (\<open>connectionOptions={}\<close>). A throw is \<open>Inl\<close>.
\<close>

definition Base_constructor :: "jsval \<Rightarrow> jsval \<Rightarrow> exn + (Base \<times> Base effect list)" where
  "Base_constructor mongodbURL arg =
     (let connectionOptions = (if arg = JUndefined then JObject [] else arg);
          this = \<lparr>dbURL = JUndefined, options = JUndefined, readyAt = JUndefined\<rparr>
      in case no_mongodb_url mongodbURL of
           Inl e \<Rightarrow> Inl e
         | Inr True \<Rightarrow> Inl (ConfigurationError ''No mongodb url was provided!'')
         | Inr False \<Rightarrow>
             if typeof mongodbURL \<noteq> ''string'' then
               Inl (ConfigurationError
                 (''Expected a string for mongodbURL, received '' @ typeof mongodbURL))
             else if truthy connectionOptions \<and> typeof connectionOptions \<noteq> ''object'' then
               Inl (ConfigurationError
                 (''Expected Object for connectionOptions, received '' @ typeof connectionOptions))
             else
               let this = this\<lparr>dbURL := mongodbURL\<rparr>;
                   this = this\<lparr>options := connectionOptions\<rparr>;
                   (this, fx) = Base_create this
               in Inr (this, fx @ [ConnectionOn ''error'', ConnectionOn ''open'']))"

text \<open>The listener registered on the driver's "error", lines 35 to 37.\<close>

definition error_handler :: "jsval \<Rightarrow> 'a Base_scheme \<Rightarrow> 'a Base_scheme \<times> 'a Base_scheme effect list" where
  "error_handler e this = (this, [Emit ''error'' [e] this])"

text \<open>
  The listener registered on the driver's "open", lines 38 to 45. \<open>now\<close> is what the clock
  reads when \<open>new Date()\<close> runs.
\<close>

definition open_handler :: "int \<Rightarrow> 'a Base_scheme \<Rightarrow> 'a Base_scheme \<times> 'a Base_scheme effect list" where
  "open_handler now this =
     (let this = this\<lparr>readyAt := JDate now\<rparr>
      in (this, [Emit ''ready'' [] this]))"

text \<open>\<open>_destroyDatabase\<close>, lines 64 to 69.\<close>

definition Base_destroyDatabase :: "'a Base_scheme \<Rightarrow> 'a Base_scheme \<times> 'a Base_scheme effect list" where
  "Base_destroyDatabase this =
     (let this = this\<lparr>readyAt := JUndefined\<rparr>;
          this = this\<lparr>dbURL := JNull\<rparr>
      in (this, [MongooseDisconnect, Emit ''debug'' [JStr ''Database disconnected!''] this]))"

section \<open>The driver's notifications\<close>

text \<open>
  The driver reports "error" with a payload and "open" without one; \<open>DriverOpen t\<close> carries
  the clock reading at the moment the listener runs. A notification reaches the instance
  through the listener the constructor registered for it.
\<close>

datatype driver_event = DriverError jsval | DriverOpen int

fun deliver :: "driver_event \<Rightarrow> 'a Base_scheme \<Rightarrow> 'a Base_scheme \<times> 'a Base_scheme effect list" where
  "deliver (DriverError e) this = error_handler e this"
| "deliver (DriverOpen t) this = open_handler t this"

fun deliver_all :: "driver_event list \<Rightarrow> 'a Base_scheme \<Rightarrow> 'a Base_scheme \<times> 'a Base_scheme effect list" where
  "deliver_all [] this = (this, [])"
| "deliver_all (ev # evs) this =
     (let (this1, fx1) = deliver ev this;
          (this2, fx2) = deliver_all evs this1
      in (this2, fx1 @ fx2))"

text \<open>Selecting the emissions of one event name from a list of effects.\<close>

fun emits :: "string \<Rightarrow> 'b effect \<Rightarrow> bool" where
  "emits name (Emit n args snapshot) = (n = name)"
| "emits name _ = False"

fun payload :: "'b effect \<Rightarrow> jsval list" where
  "payload (Emit n args snapshot) = args"
| "payload _ = []"

primrec is_open :: "driver_event \<Rightarrow> bool" where
  "is_open (DriverError e) = False"
| "is_open (DriverOpen t) = True"

text \<open>The clock readings of the "open" notifications in a sequence, in order.\<close>

primrec open_readings :: "driver_event list \<Rightarrow> int list" where
  "open_readings [] = []"
| "open_readings (ev # evs) =
     (case ev of DriverError e \<Rightarrow> open_readings evs | DriverOpen t \<Rightarrow> t # open_readings evs)"

text \<open>
  The clock is the environment's; the constructor does not read it. \<open>no_earlier_than t0 v\<close>
  says that \<open>v\<close> is a date and that this date is not before the reading \<open>t0\<close>.
\<close>

definition no_earlier_than :: "int \<Rightarrow> jsval \<Rightarrow> bool" where
  "no_earlier_than t0 v = (case v of JDate t \<Rightarrow> t0 \<le> t | _ \<Rightarrow> False)"

section \<open>Validation of the connection string\<close>

lemma no_mongodb_url_string:
  "no_mongodb_url (JStr s) = Inr (\<not> prefix ''mongodb'' s)"
  by (cases s) (simp_all add: no_mongodb_url_def)

text \<open>
  C4. Every connection string that is empty or does not start with "mongodb" makes the
  constructor throw the configuration error of line 17, whatever the options are.
\<close>

theorem constructor_rejects_unprefixed_string:
  assumes "s = [] \<or> \<not> prefix ''mongodb'' s"
  shows "Base_constructor (JStr s) opts = Inl (ConfigurationError ''No mongodb url was provided!'')"
proof -
  from assms have "\<not> prefix ''mongodb'' s" by auto
  then have "no_mongodb_url (JStr s) = Inr True"
    by (simp add: no_mongodb_url_string)
  then show ?thesis
    by (simp add: Base_constructor_def)
qed

theorem constructor_rejects_redis:
  "Base_constructor (JStr ''redis://localhost'') JUndefined =
     Inl (ConfigurationError ''No mongodb url was provided!'')"
  using constructor_rejects_unprefixed_string [of "''redis://localhost''" JUndefined]
  by simp

text \<open>What a successful construction leaves behind, for any arguments.\<close>

lemma constructor_success:
  assumes "Base_constructor mongodbURL arg = Inr (this, fx)"
  shows "this = \<lparr>dbURL = mongodbURL,
                 options = (if arg = JUndefined then JObject [] else arg),
                 readyAt = JUndefined\<rparr>"
    and "fx = [Emit ''Creating database connection...'' [] this,
               MongooseConnect mongodbURL
                 (JObject [(''useNewUrlParser'', JBool True), (''useUnifiedTopology'', JBool True)]),
               ConnectionOn ''error'', ConnectionOn ''open'']"
  using assms
  by (auto simp: Base_constructor_def Base_create_def Let_def
           split: sum.splits bool.splits if_splits)

lemma constructor_valid:
  assumes "prefix ''mongodb'' s" and "\<not> truthy arg \<or> typeof arg = ''object''"
  shows "Base_constructor (JStr s) arg =
           Inr (fst (Base_create \<lparr>dbURL = JStr s,
                                   options = (if arg = JUndefined then JObject [] else arg),
                                   readyAt = JUndefined\<rparr>),
                snd (Base_create \<lparr>dbURL = JStr s,
                                   options = (if arg = JUndefined then JObject [] else arg),
                                   readyAt = JUndefined\<rparr>)
                  @ [ConnectionOn ''error'', ConnectionOn ''open''])"
  using assms
  by (auto simp: Base_constructor_def no_mongodb_url_string Let_def split_beta)

text \<open>A value that is not a string never yields an instance.\<close>

lemma constructor_nonstring_fails:
  assumes "typeof mongodbURL \<noteq> ''string''"
  shows "isl (Base_constructor mongodbURL arg)"
  using assms
  by (auto simp: Base_constructor_def Let_def split: sum.splits bool.splits)

text \<open>
  C1. For a connection string that is not a string, the constructor is meant to throw the
  configuration error of line 18. For the number 42 line 17 runs first and calls
  \<open>startsWith\<close> on it, which is not a function there: the exception is a TypeError.
\<close>

theorem constructor_number_url_TypeError:
  "typeof (JNum (Finite 42)) \<noteq> ''string'' \<and>
   Base_constructor (JNum (Finite 42)) JUndefined = Inl TypeError"
  by (simp add: Base_constructor_def no_mongodb_url_def)

text \<open>A missing (falsy) connection string is refused by line 17, whatever its type.\<close>

lemma constructor_falsy_url:
  assumes "\<not> truthy mongodbURL"
  shows "Base_constructor mongodbURL arg =
           Inl (ConfigurationError ''No mongodb url was provided!'')"
  using assms by (simp add: Base_constructor_def no_mongodb_url_def)

text \<open>With a string as connection string the only exception is the configuration error.\<close>

lemma constructor_string_url_exceptions:
  assumes "Base_constructor (JStr s) arg = Inl e"
  shows "e = ConfigurationError ''No mongodb url was provided!'' \<or>
         e = ConfigurationError
               (''Expected Object for connectionOptions, received '' @ typeof arg)"
  using assms
  by (auto simp: Base_constructor_def no_mongodb_url_string Let_def split_beta
           split: if_splits bool.splits)

section \<open>Validation of the options\<close>

text \<open>
  C2, as the claim states it, fails: line 19 tests \<open>connectionOptions && ...\<close>, so a falsy
  value such as 0 is never type-checked. With a valid connection string the instance is
  created and 0 is stored as its options.
\<close>

theorem constructor_accepts_falsy_options:
  "truthy (JNum (Finite 0)) = False \<and>
   typeof (JNum (Finite 0)) \<noteq> ''object'' \<and>
   Base_constructor (JStr ''mongodb://localhost/test'') (JNum (Finite 0)) =
     Inr (\<lparr>dbURL = JStr ''mongodb://localhost/test'', options = JNum (Finite 0),
           readyAt = JUndefined\<rparr>,
          [Emit ''Creating database connection...'' []
             \<lparr>dbURL = JStr ''mongodb://localhost/test'', options = JNum (Finite 0),
              readyAt = JUndefined\<rparr>,
           MongooseConnect (JStr ''mongodb://localhost/test'')
             (JObject [(''useNewUrlParser'', JBool True), (''useUnifiedTopology'', JBool True)]),
           ConnectionOn ''error'', ConnectionOn ''open''])"
  by (simp add: Base_constructor_def no_mongodb_url_def Base_create_def Let_def)

text \<open>
  C2, amended. Every truthy value whose \<open>typeof\<close> is not "object", passed as options
  together with a string as connection string, makes the constructor throw a configuration
  error: the one of line 19 when the string has the prefix, the one of line 17 otherwise.
\<close>

theorem constructor_rejects_truthy_nonobject_options:
  assumes "truthy opts" and "typeof opts \<noteq> ''object''"
  shows "Base_constructor (JStr s) opts =
           Inl (ConfigurationError
                  (if prefix ''mongodb'' s
                   then ''Expected Object for connectionOptions, received '' @ typeof opts
                   else ''No mongodb url was provided!''))"
proof -
  from assms(1) have "opts \<noteq> JUndefined" by auto
  with assms show ?thesis
    by (simp add: Base_constructor_def no_mongodb_url_string)
qed

theorem constructor_rejects_number_options:
  "truthy (JNum (Finite 5)) \<and> typeof (JNum (Finite 5)) \<noteq> ''object'' \<and>
   Base_constructor (JStr ''mongodb://localhost/test'') (JNum (Finite 5)) =
     Inl (ConfigurationError ''Expected Object for connectionOptions, received number'')"
  using constructor_rejects_truthy_nonobject_options
          [of "JNum (Finite 5)" "''mongodb://localhost/test''"]
  by simp

section \<open>Notifications at construction\<close>

text \<open>
  C3. At the start of the connection attempt \<open>_create\<close> calls \<open>emit\<close> with the diagnostic
  text as its only argument: the event emitted is named "Creating database connection..."
  and has no payload. A construction emits no event named "debug".
\<close>

theorem constructor_emits_no_debug:
  "Base_constructor (JStr ''mongodb://localhost/test'') JUndefined =
     Inr (\<lparr>dbURL = JStr ''mongodb://localhost/test'', options = JObject [],
           readyAt = JUndefined\<rparr>,
          [Emit ''Creating database connection...'' []
             \<lparr>dbURL = JStr ''mongodb://localhost/test'', options = JObject [],
              readyAt = JUndefined\<rparr>,
           MongooseConnect (JStr ''mongodb://localhost/test'')
             (JObject [(''useNewUrlParser'', JBool True), (''useUnifiedTopology'', JBool True)]),
           ConnectionOn ''error'', ConnectionOn ''open'']) \<and>
   filter (emits ''debug'')
     (case Base_constructor (JStr ''mongodb://localhost/test'') JUndefined of
        Inl e \<Rightarrow> [] | Inr (this, fx) \<Rightarrow> fx) = []"
  by (simp add: Base_constructor_def no_mongodb_url_def Base_create_def Let_def)

section \<open>Teardown\<close>

text \<open>
  C5. After \<open>_destroyDatabase\<close>, in every state, \<open>readyAt\<close> is undefined and \<open>dbURL\<close> is
  null; the call emits exactly one "debug" event, with the fixed message, and no "error"
  event.
\<close>

theorem destroyDatabase_clears_and_emits_debug:
  "readyAt (fst (Base_destroyDatabase this)) = JUndefined \<and>
   dbURL (fst (Base_destroyDatabase this)) = JNull \<and>
   filter (emits ''debug'') (snd (Base_destroyDatabase this)) =
     [Emit ''debug'' [JStr ''Database disconnected!''] (fst (Base_destroyDatabase this))] \<and>
   filter (emits ''error'') (snd (Base_destroyDatabase this)) = []"
  by (simp add: Base_destroyDatabase_def Let_def)

text \<open>
  C9. A second \<open>_destroyDatabase\<close> leaves the fields as the first one did (\<open>readyAt\<close>
  undefined, \<open>dbURL\<close> null), and each of the two calls emits its own "debug" event.
\<close>

theorem destroyDatabase_idempotent:
  "fst (Base_destroyDatabase (fst (Base_destroyDatabase this))) = fst (Base_destroyDatabase this) \<and>
   readyAt (fst (Base_destroyDatabase (fst (Base_destroyDatabase this)))) = JUndefined \<and>
   dbURL (fst (Base_destroyDatabase (fst (Base_destroyDatabase this)))) = JNull \<and>
   filter (emits ''debug'') (snd (Base_destroyDatabase this)) =
     [Emit ''debug'' [JStr ''Database disconnected!''] (fst (Base_destroyDatabase this))] \<and>
   filter (emits ''debug'') (snd (Base_destroyDatabase (fst (Base_destroyDatabase this)))) =
     [Emit ''debug'' [JStr ''Database disconnected!''] (fst (Base_destroyDatabase this))]"
  by (simp add: Base_destroyDatabase_def Let_def)

text \<open>
  C10. \<open>_destroyDatabase\<close> assigns \<open>readyAt\<close> and \<open>dbURL\<close> and nothing else: \<open>options\<close> and
  every further field an instance may carry keep their values.
\<close>

theorem destroyDatabase_frame:
  "fst (Base_destroyDatabase this) = this\<lparr>readyAt := JUndefined, dbURL := JNull\<rparr> \<and>
   options (fst (Base_destroyDatabase this)) = options this \<and>
   Base.more (fst (Base_destroyDatabase this)) = Base.more this"
  by (simp add: Base_destroyDatabase_def Let_def)

section \<open>The driver reports "open"\<close>

lemma deliver_all_ready_count:
  "length (filter (emits ''ready'') (snd (deliver_all evs this))) = length (filter is_open evs)"
proof (induction evs arbitrary: this)
  case Nil
  show ?case by simp
next
  case (Cons ev evs)
  show ?case
  proof (cases ev)
    case (DriverError e)
    then show ?thesis
      using Cons.IH [of this] by (simp add: error_handler_def split_beta)
  next
    case (DriverOpen t)
    then show ?thesis
      using Cons.IH [of "this\<lparr>readyAt := JDate t\<rparr>"]
      by (simp add: open_handler_def Let_def split_beta)
  qed
qed

lemma deliver_all_readyAt:
  "readyAt (fst (deliver_all evs this)) =
     (if open_readings evs = [] then readyAt this else JDate (last (open_readings evs)))"
proof (induction evs arbitrary: this)
  case Nil
  show ?case by simp
next
  case (Cons ev evs)
  show ?case
  proof (cases ev)
    case (DriverError e)
    then show ?thesis
      using Cons.IH [of this] by (simp add: error_handler_def split_beta)
  next
    case (DriverOpen t)
    then show ?thesis
      using Cons.IH [of "this\<lparr>readyAt := JDate t\<rparr>"]
      by (simp add: open_handler_def Let_def split_beta)
  qed
qed

text \<open>
  C6, as the claim states it, fails: the listener stores what \<open>new Date()\<close> reads, and
  nothing in Base.js relates that reading to the time of construction. Construct while the
  clock reads 2000, let the clock be set back, and let the driver report "open" while it
  reads 1000: \<open>readyAt\<close> is the date 1000, earlier than the construction.
\<close>

theorem open_after_clock_set_back:
  "Base_constructor (JStr ''mongodb://localhost/test'') JUndefined =
     Inr (\<lparr>dbURL = JStr ''mongodb://localhost/test'', options = JObject [],
           readyAt = JUndefined\<rparr>,
          [Emit ''Creating database connection...'' []
             \<lparr>dbURL = JStr ''mongodb://localhost/test'', options = JObject [],
              readyAt = JUndefined\<rparr>,
           MongooseConnect (JStr ''mongodb://localhost/test'')
             (JObject [(''useNewUrlParser'', JBool True), (''useUnifiedTopology'', JBool True)]),
           ConnectionOn ''error'', ConnectionOn ''open'']) \<and>
   deliver (DriverOpen 1000)
     \<lparr>dbURL = JStr ''mongodb://localhost/test'', options = JObject [], readyAt = JUndefined\<rparr> =
     (\<lparr>dbURL = JStr ''mongodb://localhost/test'', options = JObject [],
       readyAt = JDate 1000\<rparr>,
      [Emit ''ready'' []
        \<lparr>dbURL = JStr ''mongodb://localhost/test'', options = JObject [],
         readyAt = JDate 1000\<rparr>]) \<and>
   \<not> no_earlier_than 2000
       (readyAt (fst (deliver (DriverOpen 1000)
          \<lparr>dbURL = JStr ''mongodb://localhost/test'', options = JObject [],
           readyAt = JUndefined\<rparr>)))"
  by (simp add: Base_constructor_def no_mongodb_url_def Base_create_def open_handler_def
        no_earlier_than_def Let_def)

text \<open>
  C6, amended. Whenever the driver reports "open", in whatever state the instance is
  (fresh from the constructor, already ready, or torn down), the listener stores the
  clock's reading of that moment in \<open>readyAt\<close>, replacing what was there, and then emits
  exactly one "ready" event: the instance seen at the emission already holds the new date.
  That date is no earlier than a reading \<open>t0\<close> exactly when the clock reads no less than
  \<open>t0\<close> at the notification. For an instance constructed from a string the constructor
  accepts, after any sequence of notifications \<open>readyAt\<close> is undefined if no "open" was
  among them and the date of the last "open" otherwise, and there are as many "ready"
  events as "open" notifications.
\<close>

theorem open_records_reading_then_emits_ready:
  assumes "Base_constructor (JStr s) arg = Inr (this0, fx0)"
  shows "deliver (DriverOpen t) this =
           (this\<lparr>readyAt := JDate t\<rparr>, [Emit ''ready'' [] (this\<lparr>readyAt := JDate t\<rparr>)]) \<and>
         no_earlier_than t0 (readyAt (fst (deliver (DriverOpen t) this))) = (t0 \<le> t) \<and>
         readyAt (fst (deliver_all evs this0)) =
           (if open_readings evs = [] then JUndefined else JDate (last (open_readings evs))) \<and>
         length (filter (emits ''ready'') (snd (deliver_all evs this0))) =
           length (open_readings evs) \<and>
         length (open_readings evs) = length (filter is_open evs)"
proof -
  have "readyAt this0 = JUndefined"
    using constructor_success(1) [OF assms] by simp
  moreover have "length (open_readings evs) = length (filter is_open evs)"
    by (induction evs) (simp_all split: driver_event.splits)
  ultimately show ?thesis
    by (simp add: open_handler_def Let_def no_earlier_than_def deliver_all_readyAt
          deliver_all_ready_count)
qed

theorem open_twice_keeps_latest_reading:
  "Base_constructor (JStr ''mongodb://localhost/test'') JUndefined =
     Inr (\<lparr>dbURL = JStr ''mongodb://localhost/test'', options = JObject [],
           readyAt = JUndefined\<rparr>,
          [Emit ''Creating database connection...'' []
             \<lparr>dbURL = JStr ''mongodb://localhost/test'', options = JObject [],
              readyAt = JUndefined\<rparr>,
           MongooseConnect (JStr ''mongodb://localhost/test'')
             (JObject [(''useNewUrlParser'', JBool True), (''useUnifiedTopology'', JBool True)]),
           ConnectionOn ''error'', ConnectionOn ''open'']) \<and>
   deliver (DriverOpen 200)
     \<lparr>dbURL = JStr ''mongodb://localhost/test'', options = JObject [], readyAt = JDate 100\<rparr> =
     (\<lparr>dbURL = JStr ''mongodb://localhost/test'', options = JObject [],
       readyAt = JDate 200\<rparr>,
      [Emit ''ready'' []
        \<lparr>dbURL = JStr ''mongodb://localhost/test'', options = JObject [],
         readyAt = JDate 200\<rparr>]) \<and>
   readyAt (fst (deliver_all [DriverOpen 100, DriverError (JStr ''lost''), DriverOpen 200]
     \<lparr>dbURL = JStr ''mongodb://localhost/test'', options = JObject [],
      readyAt = JUndefined\<rparr>)) = JDate 200 \<and>
   length (filter (emits ''ready'')
     (snd (deliver_all [DriverOpen 100, DriverError (JStr ''lost''), DriverOpen 200]
       \<lparr>dbURL = JStr ''mongodb://localhost/test'', options = JObject [],
        readyAt = JUndefined\<rparr>))) = 2"
proof -
  let ?m = "\<lparr>dbURL = JStr ''mongodb://localhost/test'', options = JObject [],
             readyAt = JUndefined\<rparr>"
  let ?fx = "[Emit ''Creating database connection...'' [] ?m,
              MongooseConnect (JStr ''mongodb://localhost/test'')
                (JObject [(''useNewUrlParser'', JBool True), (''useUnifiedTopology'', JBool True)]),
              ConnectionOn ''error'', ConnectionOn ''open'']"
  let ?evs = "[DriverOpen 100, DriverError (JStr ''lost''), DriverOpen 200]"
  have c: "Base_constructor (JStr ''mongodb://localhost/test'') JUndefined = Inr (?m, ?fx)"
    by (simp add: Base_constructor_def no_mongodb_url_def Base_create_def Let_def)
  note r = open_records_reading_then_emits_ready
             [OF c, of 200 "?m\<lparr>readyAt := JDate 100\<rparr>" 150 ?evs]
  have "deliver (DriverOpen 200) (?m\<lparr>readyAt := JDate 100\<rparr>) =
          (?m\<lparr>readyAt := JDate 200\<rparr>, [Emit ''ready'' [] (?m\<lparr>readyAt := JDate 200\<rparr>)])"
    using r by simp
  moreover have "readyAt (fst (deliver_all ?evs ?m)) = JDate 200"
    using r by simp
  moreover have "length (filter (emits ''ready'') (snd (deliver_all ?evs ?m))) = 2"
    using r by simp
  ultimately show ?thesis using c by simp
qed

section \<open>The driver reports "error"\<close>

lemma deliver_all_errors:
  "deliver_all (map DriverError es) this = (this, map (\<lambda>e. Emit ''error'' [e] this) es)"
  by (induction es) (simp_all add: error_handler_def)

text \<open>
  C7. For every list of payloads the driver reports as "error", one after the other, the
  instance emits one "error" event for each, in order and with the payload received, and
  neither \<open>readyAt\<close> nor any other field changes.
\<close>

theorem errors_reemitted_with_payload:
  "deliver_all (map DriverError es) this = (this, map (\<lambda>e. Emit ''error'' [e] this) es) \<and>
   length (filter (emits ''error'') (snd (deliver_all (map DriverError es) this))) = length es \<and>
   map payload (filter (emits ''error'') (snd (deliver_all (map DriverError es) this))) =
     map (\<lambda>e. [e]) es \<and>
   readyAt (fst (deliver_all (map DriverError es) this)) = readyAt this"
  by (simp add: deliver_all_errors filter_map comp_def)

section \<open>Which exceptions a construction throws\<close>

text \<open>
  C8. The configuration error is meant to be the only exception. Constructing with the
  boolean \<open>true\<close> as connection string and an empty options object throws a TypeError
  instead: line 17 calls \<open>startsWith\<close> on a value that has none, before line 18 can
  report the wrong type.
\<close>

theorem constructor_boolean_url_TypeError:
  "Base_constructor (JBool True) (JObject []) = Inl TypeError \<and>
   TypeError \<noteq> ConfigurationError ''No mongodb url was provided!'' \<and>
   TypeError \<noteq>
     ConfigurationError (''Expected a string for mongodbURL, received '' @ typeof (JBool True))"
  by (simp add: Base_constructor_def no_mongodb_url_def)

end
